theory Spec2Isabelle
  imports Complex_Main
begin

section \<open>JavaScript values\<close>

text \<open>
  The client of \<^verbatim>\<open>src/moondream.ts\<close> handles loosely typed values: the frames
  of a streaming response and the parsed body of a plain response are whatever
  \<^verbatim>\<open>JSON.parse\<close> returned. A number is an IEEE double; the code only ever tests a
  number for truthiness, so a double is kept as its mathematical value (both zeros are
  \<open>Finite 0\<close>), with the three values that are no rational number beside it.
\<close>

datatype number = NaN | Finite rat | PosInfinity | NegInfinity

datatype jsval =
    Undefined
  | Null
  | Boolean bool
  | Number number
  | String string
  | Array "jsval list"
  | Object "(string \<times> jsval) list"

text \<open>An \<^verbatim>\<open>Error\<close> object, as far as the code reads it: its \<^verbatim>\<open>message\<close>.\<close>

datatype error = Error (message: string)

text \<open>The conversion to boolean that \<^verbatim>\<open>if (x)\<close>, \<^verbatim>\<open>!x\<close> and \<^verbatim>\<open>x || y\<close> apply.\<close>

fun truthy :: "jsval \<Rightarrow> bool" where
  "truthy Undefined = False"
| "truthy Null = False"
| "truthy (Boolean b) = b"
| "truthy (Number n) = (n \<noteq> NaN \<and> n \<noteq> Finite 0)"
| "truthy (String s) = (s \<noteq> [])"
| "truthy (Array xs) = True"
| "truthy (Object fs) = True"

text \<open>
  Reading a property \<^verbatim>\<open>v.key\<close> of a value that is neither \<^verbatim>\<open>null\<close> nor
  \<^verbatim>\<open>undefined\<close>, for the keys the client reads (\<^verbatim>\<open>chunk\<close>, \<^verbatim>\<open>completed\<close>,
  \<^verbatim>\<open>answer\<close>, \<^verbatim>\<open>reasoning\<close>, \<^verbatim>\<open>caption\<close>, \<^verbatim>\<open>objects\<close>, \<^verbatim>\<open>points\<close>): none
  of them is a property of a built-in prototype, an array index or \<^verbatim>\<open>length\<close>, so only
  an object's own fields can hold one. The fields of an object are an association list
  with one entry per key.
\<close>

fun getprop :: "jsval \<Rightarrow> string \<Rightarrow> jsval" where
  "getprop (Object fs) key = (case map_of fs key of Some v \<Rightarrow> v | None \<Rightarrow> Undefined)"
| "getprop v key = Undefined"

section \<open>The runtime the decoder runs on\<close>

text \<open>
  Some of what the client calls is not code of the repository: \<^verbatim>\<open>JSON.parse\<close>
  (which returns a value or throws a \<^verbatim>\<open>SyntaxError\<close> with a message),
  \<^verbatim>\<open>chunk.toString()\<close> on whatever the response yields, and the messages of the
  \<^verbatim>\<open>TypeError\<close>s that the engine throws when \<^verbatim>\<open>in\<close> is applied to a
  primitive and when a property of \<^verbatim>\<open>null\<close> or \<^verbatim>\<open>undefined\<close> is read. They
  are the fields of a record that the functions below take; each theorem holds for
  every such runtime.
\<close>

record 'c runtime =
  JSON_parse :: "string \<Rightarrow> string + jsval"
  toString :: "'c \<Rightarrow> string"
  in_TypeError :: "jsval \<Rightarrow> string"
  read_TypeError :: "jsval \<Rightarrow> string \<Rightarrow> string"

text \<open>
  \<^verbatim>\<open>'chunk' in data\<close>: a \<^verbatim>\<open>TypeError\<close> when \<^verbatim>\<open>data\<close> is not an object, else
  whether the key is present. An array has indices and \<^verbatim>\<open>length\<close> only.
\<close>

text \<open>\<^verbatim>\<open>v.key\<close> for any value: reading a property of nothing throws.\<close>

fun read_property :: "'c runtime \<Rightarrow> jsval \<Rightarrow> string \<Rightarrow> error + jsval" where
  "read_property rt Undefined key = Inl (Error (read_TypeError rt Undefined key))"
| "read_property rt Null key = Inl (Error (read_TypeError rt Null key))"
| "read_property rt v key = Inr (getprop v key)"

fun chunk_in :: "'c runtime \<Rightarrow> jsval \<Rightarrow> string + bool" where
  "chunk_in rt (Object fs) = Inr (''chunk'' \<in> fst ` set fs)"
| "chunk_in rt (Array xs) = Inr False"
| "chunk_in rt v = Inl (in_TypeError rt v)"

section \<open>Strings\<close>

definition newline :: char where
  "newline = CHR 0x0A"

text \<open>\<^verbatim>\<open>s.split('\n')\<close>: the segments between line breaks, never an empty array.\<close>

fun split_newline :: "string \<Rightarrow> string list" where
  "split_newline [] = [[]]"
| "split_newline (c # cs) =
     (if c = newline then [] # split_newline cs
      else (case split_newline cs of
              [] \<Rightarrow> [[c]]
            | l # ls \<Rightarrow> (c # l) # ls))"

definition startsWith :: "string \<Rightarrow> string \<Rightarrow> bool" where
  "startsWith s p = (take (length p) s = p)"

definition slice :: "nat \<Rightarrow> string \<Rightarrow> string" where
  "slice n s = drop n s"

section \<open>The stream decoder\<close>

text \<open>
  The response is an asynchronous iterable of chunks; it ends, or its iteration throws
  (a connection that breaks). A generator is modelled by what it does when it is run to
  its end: the values it yields, in order, and whether it then returns or throws.
\<close>

datatype stream_end = Ended | Aborted error

record 'c response =
  chunks :: "'c list"
  fin :: stream_end

datatype outcome = Returned | Threw error

type_synonym generator = "jsval list \<times> outcome"

text \<open>
  Inside the body of \<^verbatim>\<open>streamResponse\<close>, control leaves a loop in one of three ways:
  it falls through to the next statement, it executes \<^verbatim>\<open>return\<close>, or it throws.
\<close>

datatype ctl = Continue | Return | Throw error

definition inner_catch :: "string \<Rightarrow> error" where
  "inner_catch m = Error (''Failed to parse JSON response from server: '' @ m)"

definition outer_catch :: "error \<Rightarrow> error" where
  "outer_catch e = Error (''Failed to stream response: '' @ message e)"

definition emit :: "jsval list \<Rightarrow> jsval list \<times> ctl \<Rightarrow> jsval list \<times> ctl" where
  "emit ys r = (ys @ fst r, snd r)"

text \<open>The loop over the complete lines of one chunk (lines 125 to 139).\<close>

fun for_lines :: "'c runtime \<Rightarrow> string list \<Rightarrow> jsval list \<times> ctl" where
  "for_lines rt [] = ([], Continue)"
| "for_lines rt (line # rest) =
     (if startsWith line ''data: '' then
        (case JSON_parse rt (slice 6 line) of
           Inl m \<Rightarrow> ([], Throw (inner_catch m))
         | Inr data \<Rightarrow>
             (case chunk_in rt data of
                Inl m \<Rightarrow> ([], Throw (inner_catch m))
              | Inr has \<Rightarrow>
                  (if truthy (getprop data ''completed'')
                   then ((if has then [getprop data ''chunk''] else []), Return)
                   else emit (if has then [getprop data ''chunk''] else [])
                          (for_lines rt rest))))
      else for_lines rt rest)"

text \<open>
  The loop over what is left in the buffer when the response has ended (lines 145 to
  156): the same body without the test of \<^verbatim>\<open>completed\<close>.
\<close>

fun for_remaining :: "'c runtime \<Rightarrow> string list \<Rightarrow> jsval list \<times> ctl" where
  "for_remaining rt [] = ([], Continue)"
| "for_remaining rt (line # rest) =
     (if startsWith line ''data: '' then
        (case JSON_parse rt (slice 6 line) of
           Inl m \<Rightarrow> ([], Throw (inner_catch m))
         | Inr data \<Rightarrow>
             (case chunk_in rt data of
                Inl m \<Rightarrow> ([], Throw (inner_catch m))
              | Inr has \<Rightarrow>
                  emit (if has then [getprop data ''chunk''] else [])
                    (for_remaining rt rest)))
      else for_remaining rt rest)"

text \<open>\<^verbatim>\<open>lines.pop() || ''\<close>: the last segment, and the lines that stay in the array.\<close>

definition pop_or_empty :: "string list \<Rightarrow> string" where
  "pop_or_empty lines = (case lines of [] \<Rightarrow> [] | _ \<Rightarrow> last lines)"

text \<open>
  The \<^verbatim>\<open>for await\<close> loop with the statements after it (lines 120 to 157), from a
  given buffer: one equation for the end of the response, one for a chunk.
\<close>

fun read_chunks :: "'c runtime \<Rightarrow> string \<Rightarrow> 'c list \<Rightarrow> stream_end \<Rightarrow> jsval list \<times> ctl" where
  "read_chunks rt buffer [] (Aborted e) = ([], Throw e)"
| "read_chunks rt buffer [] Ended =
     (if buffer \<noteq> [] then for_remaining rt (split_newline buffer) else ([], Continue))"
| "read_chunks rt buffer (chunk # later) e =
     (let lines = split_newline (buffer @ toString rt chunk) in
      (case for_lines rt (butlast lines) of
         (ys, Continue) \<Rightarrow> emit ys (read_chunks rt (pop_or_empty lines) later e)
       | (ys, c) \<Rightarrow> (ys, c)))"

text \<open>The generator: the body from an empty buffer, inside the outer \<^verbatim>\<open>try\<close>.\<close>

definition finish :: "jsval list \<times> ctl \<Rightarrow> generator" where
  "finish r = (case snd r of
                 Throw e \<Rightarrow> (fst r, Threw (outer_catch e))
               | _ \<Rightarrow> (fst r, Returned))"

definition streamResponse :: "'c runtime \<Rightarrow> 'c response \<Rightarrow> generator" where
  "streamResponse rt response = finish (read_chunks rt [] (chunks response) (fin response))"


text \<open>
  What the decoder has to work on: the text of the chunks one after the other, the
  lines of a text that a line break ends, and what follows its last line break.
\<close>

definition received :: "'c runtime \<Rightarrow> 'c list \<Rightarrow> string" where
  "received rt cs = concat (map (toString rt) cs)"

definition complete_lines :: "string \<Rightarrow> string list" where
  "complete_lines text = butlast (split_newline text)"

definition residual :: "string \<Rightarrow> string" where
  "residual text = last (split_newline text)"

definition data_line :: "string \<Rightarrow> string" where
  "data_line json = ''data: '' @ json"

text \<open>
  The decoder run on a whole text at once: the loop over its complete lines, then, if
  that loop falls through, the end of the response with the rest as buffer.
\<close>

definition decode_text :: "'c runtime \<Rightarrow> string \<Rightarrow> stream_end \<Rightarrow> jsval list \<times> ctl" where
  "decode_text rt text e =
     (case for_lines rt (complete_lines text) of
        (ys, Continue) \<Rightarrow> emit ys (read_chunks rt (residual text) [] e)
      | (ys, c) \<Rightarrow> (ys, c))"

section \<open>The client and its configuration\<close>

text \<open>The two private fields of the class, then the configuration it is built from.\<close>

record vl =
  apiKey :: string
  endpoint :: string

record MoondreamVLConfig =
  apiKey :: "string option"
  endpoint :: "string option"

definition DEFAULT_ENDPOINT :: string where
  "DEFAULT_ENDPOINT = ''https://api.moondream.ai/v1''"

text \<open>\<^verbatim>\<open>s || d\<close> for an optional string: \<^verbatim>\<open>undefined\<close> and the empty string are falsy.\<close>

definition or_else :: "string option \<Rightarrow> string \<Rightarrow> string" where
  "or_else s d = (case s of None \<Rightarrow> d | Some v \<Rightarrow> if v = [] then d else v)"

definition constructor :: "MoondreamVLConfig \<Rightarrow> error + vl" where
  "constructor config =
     (let this = \<lparr>vl.apiKey = or_else (MoondreamVLConfig.apiKey config) [],
                  vl.endpoint = or_else (MoondreamVLConfig.endpoint config) DEFAULT_ENDPOINT\<rparr>
      in if vl.apiKey this = [] \<and> vl.endpoint this = DEFAULT_ENDPOINT
         then Inl (Error ''An apiKey is required for cloud inference. '')
         else Inr this)"

section \<open>The image normalizer\<close>

text \<open>
  Modelled from the spec: \<^verbatim>\<open>Base64EncodedImage\<close> is declared in \<^verbatim>\<open>./types\<close>, which is
  not among the sources; an encoded image carries a URL-style reference field, which the
  code reads as \<^verbatim>\<open>imageUrl\<close>.
\<close>

record Base64EncodedImage =
  imageUrl :: string

datatype image_input = Buffer string | Encoded Base64EncodedImage

text \<open>
  The image library (Jimp) is an external collaborator: decoding, the bitmap of a
  decoded image, setting the quality, and encoding to a buffer. An image of the library
  is a value of any type \<open>'img\<close>; \<^verbatim>\<open>quality\<close> changes the image in place, which is
  the image it returns here.
\<close>

record bitmap =
  width :: jsval
  height :: jsval

record 'img codec =
  read :: "string \<Rightarrow> error + 'img"
  bitmap :: "'img \<Rightarrow> bitmap option"
  quality :: "nat \<Rightarrow> 'img \<Rightarrow> 'img"
  getBufferAsync :: "string \<Rightarrow> 'img \<Rightarrow> error + string"

text \<open>\<^verbatim>\<open>buffer.toString('base64')\<close>: the standard alphabet, padded.\<close>

definition alphabet :: string where
  "alphabet = ''ABCDEFGHIJKLMNOPQRSTUVWXYZabcdefghijklmnopqrstuvwxyz0123456789+/''"

definition sextet :: "nat \<Rightarrow> char" where
  "sextet n = alphabet ! (n mod 64)"

fun base64 :: "nat list \<Rightarrow> string" where
  "base64 (a # b # c # bytes) =
     [sextet (a div 4), sextet ((a mod 4) * 16 + b div 16),
      sextet ((b mod 16) * 4 + c div 64), sextet (c mod 64)] @ base64 bytes"
| "base64 [a, b] =
     [sextet (a div 4), sextet ((a mod 4) * 16 + b div 16), sextet ((b mod 16) * 4), CHR ''='']"
| "base64 [a] = [sextet (a div 4), sextet ((a mod 4) * 16), CHR ''='', CHR ''='']"
| "base64 [] = []"

definition toString_base64 :: "string \<Rightarrow> string" where
  "toString_base64 buffer = base64 (map of_char buffer)"

text \<open>The body of the \<^verbatim>\<open>try\<close> (lines 46 to 62).\<close>

definition convert :: "'img codec \<Rightarrow> string \<Rightarrow> error + Base64EncodedImage" where
  "convert jimp bytes =
     (case read jimp bytes of
        Inl error \<Rightarrow> Inl error
      | Inr jimpImage \<Rightarrow>
          (let w = (case bitmap jimp jimpImage of None \<Rightarrow> Undefined | Some b \<Rightarrow> width b);
               h = (case bitmap jimp jimpImage of None \<Rightarrow> Undefined | Some b \<Rightarrow> height b)
           in if \<not> truthy w \<or> \<not> truthy h
              then Inl (Error ''Unable to get image dimensions'')
              else (case getBufferAsync jimp ''image/jpeg'' (quality jimp 95 jimpImage) of
                      Inl error \<Rightarrow> Inl error
                    | Inr buffer \<Rightarrow>
                        Inr \<lparr>imageUrl = ''data:image/jpeg;base64,'' @ toString_base64 buffer\<rparr>)))"

definition encodeImage :: "'img codec \<Rightarrow> image_input \<Rightarrow> error + Base64EncodedImage" where
  "encodeImage jimp img =
     (case img of
        Encoded e \<Rightarrow> Inr e
      | Buffer bytes \<Rightarrow>
          (case convert jimp bytes of
             Inl error \<Rightarrow> Inl (Error (''Failed to convert image to JPEG: '' @ message error))
           | Inr e \<Rightarrow> Inr e))"

section \<open>The task dispatchers\<close>

text \<open>
  \<^verbatim>\<open>makeRequest\<close> (lines 70 to 114) is the client's exchange with the service. Its
  callers see what its promise settles to: \<open>post_json path body\<close> is
  \<^verbatim>\<open>makeRequest(path, body, false)\<close>, the parsed body of the reply or an error;
  \<open>post_stream path body\<close> is \<^verbatim>\<open>makeRequest(path, body, true)\<close>, the live response or
  an error. A call of a dispatcher is modelled by the requests it sends, in order, and
  what its promise settles to.
\<close>

type_synonym body = "(string \<times> jsval) list"

record 'c network =
  post_json :: "string \<Rightarrow> body \<Rightarrow> error + jsval"
  post_stream :: "string \<Rightarrow> body \<Rightarrow> error + 'c response"

record sent =
  path :: string
  payload :: body
  streaming :: bool

type_synonym 'a call = "sent list \<times> (error + 'a)"

text \<open>\<^verbatim>\<open>body.key = v\<close>.\<close>

fun assign :: "body \<Rightarrow> string \<Rightarrow> jsval \<Rightarrow> body" where
  "assign [] key v = [(key, v)]"
| "assign ((k, w) # rest) key v =
     (if k = key then (k, v) # rest else (k, w) # assign rest key v)"

definition optional_string :: "string option \<Rightarrow> jsval" where
  "optional_string s = (case s of None \<Rightarrow> Undefined | Some v \<Rightarrow> String v)"

definition optional_boolean :: "bool option \<Rightarrow> jsval" where
  "optional_boolean b = (case b of None \<Rightarrow> Undefined | Some v \<Rightarrow> Boolean v)"

text \<open>\<^verbatim>\<open>if (request.variant) { requestBody.variant = request.variant; }\<close>\<close>

definition with_variant :: "string option \<Rightarrow> body \<Rightarrow> body" where
  "with_variant variant requestBody =
     (if truthy (optional_string variant)
      then assign requestBody ''variant'' (optional_string variant)
      else requestBody)"

text \<open>
  Modelled from the spec: the request and output types of the four tasks are declared in
  \<^verbatim>\<open>./types\<close>, which is not among the sources. Their fields are those of the spec's
  task request and response shapes; an optional field is an \<open>option\<close>. A text that may
  be a live decode is either the value of the reply's field or the generator.
\<close>

datatype text_or_stream = Plain jsval | Stream generator

record CaptionRequest =
  image :: image_input
  length' :: "string option"
  stream :: "bool option"
  variant :: "string option"

record CaptionOutput =
  caption :: text_or_stream

record QueryRequest =
  question :: string
  image :: "image_input option"
  reasoning :: "bool option"
  stream :: "bool option"
  variant :: "string option"

record QueryOutput =
  answer :: text_or_stream
  reasoning :: "jsval option"

record DetectRequest =
  image :: image_input
  object :: string
  variant :: "string option"

record DetectOutput =
  objects :: jsval

record PointRequest =
  image :: image_input
  object :: string
  variant :: "string option"

record PointOutput =
  points :: jsval

definition caption :: "'c runtime \<Rightarrow> 'img codec \<Rightarrow> 'c network \<Rightarrow> CaptionRequest \<Rightarrow> CaptionOutput call" where
  "caption rt jimp net request =
     (case encodeImage jimp (CaptionRequest.image request) of
        Inl error \<Rightarrow> ([], Inl error)
      | Inr encodedImage \<Rightarrow>
          (let requestBody = with_variant (CaptionRequest.variant request)
                 [(''image_url'', String (imageUrl encodedImage)),
                  (''length'', optional_string (length' request)),
                  (''stream'', optional_boolean (CaptionRequest.stream request))]
           in if truthy (optional_boolean (CaptionRequest.stream request))
              then ([\<lparr>path = ''/caption'', payload = requestBody, streaming = True\<rparr>],
                    (case post_stream net ''/caption'' requestBody of
                       Inl error \<Rightarrow> Inl error
                     | Inr response \<Rightarrow> Inr \<lparr>caption = Stream (streamResponse rt response)\<rparr>))
              else ([\<lparr>path = ''/caption'', payload = requestBody, streaming = False\<rparr>],
                    (case post_json net ''/caption'' requestBody of
                       Inl error \<Rightarrow> Inl error
                     | Inr response \<Rightarrow>
                         (case read_property rt response ''caption'' of
                            Inl error \<Rightarrow> Inl error
                          | Inr c \<Rightarrow> Inr \<lparr>caption = Plain c\<rparr>)))))"

text \<open>The part of \<^verbatim>\<open>query\<close> before the request is sent (lines 190 to 206).\<close>

definition query_body :: "'img codec \<Rightarrow> QueryRequest \<Rightarrow> error + body" where
  "query_body jimp request =
     (let requestBody = [(''question'', String (question request)),
                         (''stream'', optional_boolean (QueryRequest.stream request))]
      in case (case QueryRequest.image request of
                 None \<Rightarrow> Inr requestBody
               | Some img \<Rightarrow>
                   (case encodeImage jimp img of
                      Inl error \<Rightarrow> Inl error
                    | Inr encodedImage \<Rightarrow>
                        Inr (assign requestBody ''image_url'' (String (imageUrl encodedImage))))) of
           Inl error \<Rightarrow> Inl error
         | Inr requestBody \<Rightarrow>
             Inr (with_variant (QueryRequest.variant request)
                    (case QueryRequest.reasoning request of
                       None \<Rightarrow> requestBody
                     | Some r \<Rightarrow> assign requestBody ''reasoning'' (Boolean r))))"

text \<open>The part of \<^verbatim>\<open>query\<close> that shapes a plain reply (lines 214 to 218).\<close>

definition query_result :: "'c runtime \<Rightarrow> jsval \<Rightarrow> error + QueryOutput" where
  "query_result rt response =
     (case read_property rt response ''answer'' of
        Inl error \<Rightarrow> Inl error
      | Inr a \<Rightarrow>
          Inr \<lparr>answer = Plain a,
               reasoning = (if truthy (getprop response ''reasoning'')
                            then Some (getprop response ''reasoning'') else None)\<rparr>)"

definition query :: "'c runtime \<Rightarrow> 'img codec \<Rightarrow> 'c network \<Rightarrow> QueryRequest \<Rightarrow> QueryOutput call" where
  "query rt jimp net request =
     (case query_body jimp request of
        Inl error \<Rightarrow> ([], Inl error)
      | Inr requestBody \<Rightarrow>
          (if truthy (optional_boolean (QueryRequest.stream request))
           then ([\<lparr>path = ''/query'', payload = requestBody, streaming = True\<rparr>],
                 (case post_stream net ''/query'' requestBody of
                    Inl error \<Rightarrow> Inl error
                  | Inr response \<Rightarrow>
                      Inr \<lparr>answer = Stream (streamResponse rt response), reasoning = None\<rparr>))
           else ([\<lparr>path = ''/query'', payload = requestBody, streaming = False\<rparr>],
                 (case post_json net ''/query'' requestBody of
                    Inl error \<Rightarrow> Inl error
                  | Inr response \<Rightarrow> query_result rt response))))"

definition detect :: "'c runtime \<Rightarrow> 'img codec \<Rightarrow> 'c network \<Rightarrow> DetectRequest \<Rightarrow> DetectOutput call" where
  "detect rt jimp net request =
     (case encodeImage jimp (DetectRequest.image request) of
        Inl error \<Rightarrow> ([], Inl error)
      | Inr encodedImage \<Rightarrow>
          (let requestBody = with_variant (DetectRequest.variant request)
                 [(''image_url'', String (imageUrl encodedImage)),
                  (''object'', String (DetectRequest.object request))]
           in ([\<lparr>path = ''/detect'', payload = requestBody, streaming = False\<rparr>],
               (case post_json net ''/detect'' requestBody of
                  Inl error \<Rightarrow> Inl error
                | Inr response \<Rightarrow>
                    (case read_property rt response ''objects'' of
                       Inl error \<Rightarrow> Inl error
                     | Inr v \<Rightarrow> Inr \<lparr>objects = v\<rparr>)))))"

definition point :: "'c runtime \<Rightarrow> 'img codec \<Rightarrow> 'c network \<Rightarrow> PointRequest \<Rightarrow> PointOutput call" where
  "point rt jimp net request =
     (case encodeImage jimp (PointRequest.image request) of
        Inl error \<Rightarrow> ([], Inl error)
      | Inr encodedImage \<Rightarrow>
          (let requestBody = with_variant (PointRequest.variant request)
                 [(''image_url'', String (imageUrl encodedImage)),
                  (''object'', String (PointRequest.object request))]
           in ([\<lparr>path = ''/point'', payload = requestBody, streaming = False\<rparr>],
               (case post_json net ''/point'' requestBody of
                  Inl error \<Rightarrow> Inl error
                | Inr response \<Rightarrow>
                    (case read_property rt response ''points'' of
                       Inl error \<Rightarrow> Inl error
                     | Inr v \<Rightarrow> Inr \<lparr>points = v\<rparr>)))))"

section \<open>Instances for the examples\<close>

text \<open>
  On Node the chunks of a response are buffers of bytes, and \<^verbatim>\<open>chunk.toString()\<close>
  decodes a buffer as UTF-8: a well-formed sequence is the character it encodes, and each
  maximal ill-formed part, also a sequence that the end of the buffer cuts short, becomes
  the replacement character U+FFFD. Texts are kept here in their UTF-8 form, so decoding
  copies the well-formed sequences and writes \<open>EF BF BD\<close> for each ill-formed part.
  The arguments of \<open>utf8\<close> are the number of continuation bytes still needed, the range
  allowed for the next one, the bytes of the sequence so far, and the input.
\<close>

definition replacement :: string where
  "replacement = [CHR 0xEF, CHR 0xBF, CHR 0xBD]"

fun utf8 :: "nat \<Rightarrow> nat \<Rightarrow> nat \<Rightarrow> string \<Rightarrow> string \<Rightarrow> string" where
  "utf8 needed lo hi seen [] = (if needed \<noteq> 0 then replacement else [])"
| "utf8 needed lo hi seen (b # bs) =
    (if needed = 0 then
       (if of_char b \<le> (0x7F::nat) then b # utf8 0 0x80 0xBF [] bs
        else if (0xC2::nat) \<le> of_char b \<and> of_char b \<le> (0xDF::nat) then
          utf8 1 0x80 0xBF [b] bs
        else if (0xE0::nat) \<le> of_char b \<and> of_char b \<le> (0xEF::nat) then
          utf8 2 (if of_char b = (0xE0::nat) then 0xA0 else 0x80)
                 (if of_char b = (0xED::nat) then 0x9F else 0xBF) [b] bs
        else if (0xF0::nat) \<le> of_char b \<and> of_char b \<le> (0xF4::nat) then
          utf8 3 (if of_char b = (0xF0::nat) then 0x90 else 0x80)
                 (if of_char b = (0xF4::nat) then 0x8F else 0xBF) [b] bs
        else replacement @ utf8 0 0x80 0xBF [] bs)
     else if of_char b < lo \<or> hi < of_char b then
       replacement @ utf8 0 0x80 0xBF [] (b # bs)
     else if needed = 1 then seen @ [b] @ utf8 0 0x80 0xBF [] bs
     else utf8 (needed - 1) 0x80 0xBF (seen @ [b]) bs)"

definition Buffer_toString :: "string \<Rightarrow> string" where
  "Buffer_toString bytes = utf8 0 0x80 0xBF [] bytes"

text \<open>
  The frames of the examples, each with what \<^verbatim>\<open>JSON.parse\<close> returns on it (the messages
  of the syntax errors are those of V8). The runtime \<open>node\<close> parses these texts and no
  other: it is an instance to evaluate the decoder on, and the theorems do not depend
  on it.
\<close>

definition frames :: "(string \<times> (string + jsval)) list" where
  \<open>frames =
    [(''{"chunk":"ab"}'', Inr (Object [(''chunk'', String ''ab'')])),
     (''{"chunk":"a"}'', Inr (Object [(''chunk'', String ''a'')])),
     (''{"chunk":"c"}'', Inr (Object [(''chunk'', String ''c'')])),
     (''{"chunk":"b","completed":true}'',
        Inr (Object [(''chunk'', String ''b''), (''completed'', Boolean True)])),
     (''{"completed":true}'', Inr (Object [(''completed'', Boolean True)])),
     (''{"completed":false}'', Inr (Object [(''completed'', Boolean False)])),
     (''{}'', Inr (Object [])),
     (''{"chunk":"'' @ [CHR 0xC3, CHR 0xA9] @ ''"}'',
        Inr (Object [(''chunk'', String [CHR 0xC3, CHR 0xA9])])),
     (''{"chunk":"'' @ replacement @ replacement @ ''"}'',
        Inr (Object [(''chunk'', String (replacement @ replacement))])),
     (''{"chunk":'', Inl ''Unexpected end of JSON input'')]\<close>

fun render :: "jsval \<Rightarrow> string" where
  "render Undefined = ''undefined''"
| "render Null = ''null''"
| "render (Boolean b) = (if b then ''true'' else ''false'')"
| "render (String s) = s"
| "render v = []"

definition node :: "string runtime" where
  "node =
     \<lparr>JSON_parse = (\<lambda>s. case map_of frames s of
                           Some r \<Rightarrow> r
                         | None \<Rightarrow> Inl ''Unexpected token''),
      toString = Buffer_toString,
      in_TypeError = (\<lambda>v. ''Cannot use 'in' operator to search for 'chunk' in '' @ render v),
      read_TypeError = (\<lambda>v key. ''Cannot read properties of '' @ render v @
                                  '' (reading '' @ [CHR 0x27] @ key @ [CHR 0x27] @ '')'')\<rparr>"

text \<open>
  A stand-in for the image library: an image is the bytes it was read from. It cannot
  read an empty buffer, finds no bitmap in the buffer \<open>?\<close>, cannot encode the buffer
  \<open>!\<close>, and encodes every other image to the three bytes \<open>FF D8 FF\<close>.
\<close>

definition small_codec :: "string codec" where
  "small_codec =
     \<lparr>read = (\<lambda>bytes. if bytes = [] then Inl (Error ''Could not find MIME for Buffer <null>'')
                       else Inr bytes),
      bitmap = (\<lambda>img. if img = ''?'' then None
                       else Some \<lparr>width = Number (Finite 100), height = Number (Finite 100)\<rparr>),
      quality = (\<lambda>q img. img),
      getBufferAsync = (\<lambda>mime img. if img = ''!'' then Inl (Error ''Unsupported MIME type: image/jpeg'')
                                    else Inr [CHR 0xFF, CHR 0xD8, CHR 0xFF])\<rparr>"

text \<open>A service that replies to every request with the same body.\<close>

definition replies :: "jsval \<Rightarrow> string network" where
  "replies v =
     \<lparr>post_json = (\<lambda>path body. Inr v),
      post_stream = (\<lambda>path body. Inr \<lparr>chunks = [], fin = Ended\<rparr>)\<rparr>"

section \<open>Lines and chunks\<close>

lemma split_newline_not_Nil: "split_newline s \<noteq> []"
  by (induction s) (auto split: list.splits)

lemma split_newline_no_newline: "l \<in> set (split_newline s) \<Longrightarrow> newline \<notin> set l"
  by (induction s arbitrary: l) (auto split: list.splits if_splits)

lemma split_newline_plain: "newline \<notin> set s \<Longrightarrow> split_newline s = [s]"
  by (induction s) auto

lemma split_newline_append:
  "split_newline (a @ b) =
     butlast (split_newline a) @ split_newline (last (split_newline a) @ b)"
proof (induction a)
  case Nil
  show ?case by simp
next
  case (Cons c a)
  obtain l ls where s: "split_newline a = l # ls"
    using split_newline_not_Nil [of a] by (cases "split_newline a") auto
  show ?case
  proof (cases "c = newline")
    case True
    with Cons s show ?thesis by simp
  next
    case False
    show ?thesis
    proof (cases ls)
      case Nil
      with Cons s False show ?thesis by simp
    next
      case (Cons l2 ls2)
      with Cons.IH s False show ?thesis by simp
    qed
  qed
qed

lemma residual_no_newline: "newline \<notin> set (residual text)"
  using split_newline_no_newline [of "last (split_newline text)" "text"] split_newline_not_Nil
  by (simp add: residual_def)

lemma complete_lines_plain: "newline \<notin> set s \<Longrightarrow> complete_lines s = []"
  by (simp add: complete_lines_def split_newline_plain)

lemma residual_plain: "newline \<notin> set s \<Longrightarrow> residual s = s"
  by (simp add: residual_def split_newline_plain)

lemma complete_lines_append:
  "complete_lines (a @ b) = complete_lines a @ complete_lines (residual a @ b)"
  using split_newline_not_Nil [of "residual a @ b"]
  by (simp add: complete_lines_def residual_def split_newline_append [of a b] butlast_append)

lemma residual_append: "residual (a @ b) = residual (residual a @ b)"
  using split_newline_not_Nil [of "last (split_newline a) @ b"]
  by (simp add: residual_def split_newline_append [of a b])

lemma complete_lines_line:
  "newline \<notin> set line \<Longrightarrow> complete_lines (line @ newline # t) = line # complete_lines t"
proof -
  assume n: "newline \<notin> set line"
  have s: "split_newline (line @ [newline]) = [line, []]"
    using n by (induction line) auto
  have "complete_lines ((line @ [newline]) @ t) = [line] @ complete_lines ([] @ t)"
    unfolding complete_lines_append [of "line @ [newline]" t]
    by (simp add: complete_lines_def residual_def s)
  then show ?thesis by simp
qed

lemma residual_line:
  "newline \<notin> set line \<Longrightarrow> residual (line @ newline # t) = residual t"
proof -
  assume n: "newline \<notin> set line"
  have s: "split_newline (line @ [newline]) = [line, []]"
    using n by (induction line) auto
  have "residual ((line @ [newline]) @ t) = residual ([] @ t)"
    unfolding residual_append [of "line @ [newline]" t] by (simp add: residual_def s)
  then show ?thesis by simp
qed

lemma emit_Nil: "emit [] r = r"
  by (simp add: emit_def)

lemma emit_emit: "emit xs (emit ys r) = emit (xs @ ys) r"
  by (simp add: emit_def)

lemma for_lines_append:
  "for_lines rt (xs @ ys) =
     (case for_lines rt xs of
        (a, Continue) \<Rightarrow> emit a (for_lines rt ys)
      | (a, c) \<Rightarrow> (a, c))"
proof (induction xs)
  case Nil
  show ?case by (simp add: emit_Nil)
next
  case (Cons x xs)
  show ?case
    using Cons.IH
    by (auto simp: emit_def split: sum.splits prod.splits ctl.splits)
qed

lemma decode_text_append:
  "decode_text rt (a @ b) e =
     (case for_lines rt (complete_lines a) of
        (ys, Continue) \<Rightarrow> emit ys (decode_text rt (residual a @ b) e)
      | (ys, c) \<Rightarrow> (ys, c))"
  unfolding decode_text_def complete_lines_append [of a b] residual_append [of a b]
    for_lines_append
  by (simp add: emit_emit emit_def split: prod.splits ctl.splits)

lemma read_chunks_decode_text:
  "newline \<notin> set buffer \<Longrightarrow>
   read_chunks rt buffer cs e = decode_text rt (buffer @ received rt cs) e"
proof (induction cs arbitrary: buffer)
  case Nil
  then show ?case
    by (simp add: decode_text_def received_def complete_lines_plain residual_plain emit_Nil)
next
  case (Cons c cs)
  let ?a = "buffer @ toString rt c"
  have pop: "pop_or_empty (split_newline ?a) = residual ?a"
    using split_newline_not_Nil [of ?a]
    by (simp add: pop_or_empty_def residual_def split: list.splits)
  have "decode_text rt (?a @ received rt cs) e =
     (case for_lines rt (complete_lines ?a) of
        (ys, Continue) \<Rightarrow> emit ys (decode_text rt (residual ?a @ received rt cs) e)
      | (ys, c) \<Rightarrow> (ys, c))"
    by (rule decode_text_append)
  also have "\<dots> = read_chunks rt buffer (c # cs) e"
    using Cons.IH [OF residual_no_newline [of ?a]]
    by (simp add: pop Let_def complete_lines_def)
  finally show ?case by (simp add: received_def)
qed

lemma streamResponse_decode_text:
  "streamResponse rt r = finish (decode_text rt (received rt (chunks r)) (fin r))"
  using read_chunks_decode_text [of "[]" rt "chunks r" "fin r"]
  by (simp add: streamResponse_def)

lemma decode_text_after:
  assumes "residual before = []"
  shows "decode_text rt (before @ t) e =
     (case for_lines rt (complete_lines before) of
        (ys, Continue) \<Rightarrow> emit ys (decode_text rt t e)
      | (ys, c) \<Rightarrow> (ys, c))"
  unfolding decode_text_append [of rt before t e]
  using assms by (simp split: prod.splits ctl.splits)

lemma decode_text_line:
  assumes "newline \<notin> set line"
  shows "decode_text rt (line @ newline # t) e =
     (case for_lines rt [line] of
        (ys, Continue) \<Rightarrow> emit ys (decode_text rt t e)
      | (ys, c) \<Rightarrow> (ys, c))"
  unfolding decode_text_def complete_lines_line [OF assms] residual_line [OF assms]
  using for_lines_append [of rt "[line]" "complete_lines t"]
  by (simp add: emit_emit emit_def del: for_lines.simps split: prod.splits ctl.splits)

lemma decode_text_residual:
  assumes "newline \<notin> set line"
  shows "decode_text rt line e = read_chunks rt line [] e"
  using assms by (simp add: decode_text_def complete_lines_plain residual_plain emit_Nil)

lemma startsWith_data_line: "startsWith (data_line json) ''data: ''"
  by (simp add: startsWith_def data_line_def)

lemma slice_data_line: "slice 6 (data_line json) = json"
  by (simp add: slice_def data_line_def)

lemma newline_data_line: "newline \<notin> set json \<Longrightarrow> newline \<notin> set (data_line json)"
  by (simp add: data_line_def newline_def)

lemma data_line_not_Nil: "data_line json \<noteq> []"
  by (simp add: data_line_def)

section \<open>What the decoder does with a response\<close>

lemmas example_simps = node_def frames_def Buffer_toString_def replacement_def newline_def
  startsWith_def slice_def data_line_def residual_def complete_lines_def received_def
  emit_def finish_def streamResponse_def pop_or_empty_def inner_catch_def outer_catch_def

lemma streamResponse_same_text:
  "received rt cs = received rt cs' \<Longrightarrow>
   streamResponse rt \<lparr>chunks = cs, fin = e\<rparr> = streamResponse rt \<lparr>chunks = cs', fin = e\<rparr>"
  by (simp add: streamResponse_decode_text)

lemma for_lines_frame:
  assumes "JSON_parse rt json = Inr data" and "chunk_in rt data = Inr has"
  shows "for_lines rt (data_line json # rest) =
     (if truthy (getprop data ''completed'')
      then ((if has then [getprop data ''chunk''] else []), Return)
      else emit (if has then [getprop data ''chunk''] else []) (for_lines rt rest))"
  using assms by (simp add: startsWith_data_line slice_data_line)

lemma for_remaining_frame:
  assumes "JSON_parse rt json = Inr data" and "chunk_in rt data = Inr has"
  shows "for_remaining rt (data_line json # rest) =
     emit (if has then [getprop data ''chunk''] else []) (for_remaining rt rest)"
  using assms by (simp add: startsWith_data_line slice_data_line)

lemma at_end_frame:
  assumes "newline \<notin> set json"
    and "JSON_parse rt json = Inr data" and "chunk_in rt data = Inr has"
  shows "decode_text rt (data_line json) Ended =
           ((if has then [getprop data ''chunk''] else []), Continue)"
  unfolding decode_text_residual [OF newline_data_line [OF assms(1)]]
  using for_remaining_frame [OF assms(2,3), of "[]"]
  by (simp add: data_line_not_Nil split_newline_plain newline_data_line [OF assms(1)] emit_def
      del: for_remaining.simps(2))

text \<open>
  Two responses whose chunks decode to the same text are decoded alike, and the example
  of the specification holds: its bytes are ASCII, which no cut can break.
\<close>

lemma streamResponse_one_chunk_or_bytes:
  \<open>streamResponse node \<lparr>chunks = [''data: {"chunk":"ab"}\<newline>''], fin = Ended\<rparr> =
     ([String ''ab''], Returned) \<and>
   streamResponse node
      \<lparr>chunks = map (\<lambda>c. [c]) ''data: {"chunk":"ab"}\<newline>'', fin = Ended\<rparr> =
     ([String ''ab''], Returned)\<close>
proof -
  have one: \<open>streamResponse node \<lparr>chunks = [''data: {"chunk":"ab"}\<newline>''], fin = Ended\<rparr> =
     ([String ''ab''], Returned)\<close>
    by (simp add: example_simps)
  have same: \<open>received node (map (\<lambda>c. [c]) ''data: {"chunk":"ab"}\<newline>'') =
     received node [''data: {"chunk":"ab"}\<newline>'']\<close>
    by (simp add: example_simps)
  show ?thesis
    using one streamResponse_same_text [OF same, of Ended] by simp
qed

text \<open>
  C1. The decoder is meant to give the same fragments however the bytes of the response
  are cut into chunks. It decodes each chunk by itself, so a chunk boundary inside a
  character changes the text: the two bytes of U+00E9 in one chunk give the fragment
  with that character, the same bytes in two chunks give two replacement characters.
\<close>

theorem streamResponse_split_character:
  \<open>streamResponse node
      \<lparr>chunks = [''data: {"chunk":"'' @ [CHR 0xC3, CHR 0xA9] @ ''"}\<newline>''], fin = Ended\<rparr> =
    ([String [CHR 0xC3, CHR 0xA9]], Returned) \<and>
   streamResponse node
      \<lparr>chunks = [''data: {"chunk":"'' @ [CHR 0xC3], [CHR 0xA9] @ ''"}\<newline>''], fin = Ended\<rparr> =
    ([String [CHR 0xEF, CHR 0xBF, CHR 0xBD, CHR 0xEF, CHR 0xBF, CHR 0xBD]], Returned)\<close>
  by (simp add: example_simps)

text \<open>
  C2. Once the decoder processes a line whose frame has a truthy \<^verbatim>\<open>completed\<close>, the
  sequence ends successfully with the fragments emitted so far and the fragment of that
  frame, if it has one: whatever follows in the response (\<open>later\<close>, and how the
  response ends) plays no part. The decoder reaches the line when the lines before it
  fall through; the line is a complete one, or the last, unterminated one of a response
  that ends.
\<close>

theorem completed_ends_sequence:
  assumes "residual before = []"
    and "for_lines rt (complete_lines before) = (ys, Continue)"
    and "newline \<notin> set json"
    and "JSON_parse rt json = Inr data"
    and "chunk_in rt data = Inr has"
    and "truthy (getprop data ''completed'')"
  shows "(received rt cs = before @ data_line json @ newline # later \<longrightarrow>
            streamResponse rt \<lparr>chunks = cs, fin = e\<rparr> =
              (ys @ (if has then [getprop data ''chunk''] else []), Returned)) \<and>
         (received rt cs = before @ data_line json \<longrightarrow>
            streamResponse rt \<lparr>chunks = cs, fin = Ended\<rparr> =
              (ys @ (if has then [getprop data ''chunk''] else []), Returned))"
proof -
  have "decode_text rt (data_line json @ newline # later) e =
          ((if has then [getprop data ''chunk''] else []), Return)"
    unfolding decode_text_line [OF newline_data_line [OF assms(3)]]
    using assms(6) by (simp add: for_lines_frame [OF assms(4,5)] del: for_lines.simps(2))
  then have mid: "decode_text rt (before @ data_line json @ newline # later) e =
          (ys @ (if has then [getprop data ''chunk''] else []), Return)"
    unfolding decode_text_after [OF assms(1)]
    using assms(2) by (simp add: emit_def)
  have last: "decode_text rt (before @ data_line json) Ended =
          (ys @ (if has then [getprop data ''chunk''] else []), Continue)"
    unfolding decode_text_after [OF assms(1)]
    using assms(2) by (simp add: at_end_frame [OF assms(3,4,5)] emit_def)
  show ?thesis
    using mid last by (simp add: streamResponse_decode_text finish_def)
qed

theorem completed_ends_sequence_witness:
  \<open>streamResponse node
      \<lparr>chunks = [''data: {"chunk":"a"}\<newline>da'',
                 ''ta: {"chunk":"b","completed":true}\<newline>data: {"chunk":"c"}\<newline>''],
       fin = Aborted (Error ''aborted'')\<rparr> =
     ([String ''a'', String ''b''], Returned) \<and>
   streamResponse node
      \<lparr>chunks = [''data: {"chunk":"a"}\<newline>data: {"chunk":"b","comp'', ''leted":true}''],
       fin = Ended\<rparr> =
     ([String ''a'', String ''b''], Returned)\<close>
proof -
  let ?before = \<open>''data: {"chunk":"a"}\<newline>''\<close>
  let ?json = \<open>''{"chunk":"b","completed":true}''\<close>
  let ?data = \<open>Object [(''chunk'', String ''b''), (''completed'', Boolean True)]\<close>
  have 1: "residual ?before = []"
    by (simp add: example_simps)
  have 2: "for_lines node (complete_lines ?before) = ([String ''a''], Continue)"
    by (simp add: example_simps)
  have 3: "newline \<notin> set ?json"
    by (simp add: example_simps)
  have 4: "JSON_parse node ?json = Inr ?data"
    by (simp add: example_simps)
  have 5: "chunk_in node ?data = Inr True"
    by simp
  have 6: "truthy (getprop ?data ''completed'')"
    by simp
  have 7: \<open>received node [''data: {"chunk":"a"}\<newline>da'',
                 ''ta: {"chunk":"b","completed":true}\<newline>data: {"chunk":"c"}\<newline>''] =
           ?before @ data_line ?json @ newline # ''data: {"chunk":"c"}\<newline>''\<close>
    by (simp add: example_simps)
  have 8: \<open>received node [''data: {"chunk":"a"}\<newline>data: {"chunk":"b","comp'',
                 ''leted":true}''] = ?before @ data_line ?json\<close>
    by (simp add: example_simps)
  show ?thesis
    using completed_ends_sequence [OF 1 2 3 4 5 6, THEN conjunct1, rule_format, OF 7]
      completed_ends_sequence [OF 1 2 3 4 5 6, THEN conjunct2, rule_format, OF 8]
    by simp
qed

text \<open>
  C3. When the response ends with the decoder still running (the complete lines fell
  through: no \<^verbatim>\<open>completed\<close>), and what is left in the buffer is an unterminated
  \<^verbatim>\<open>data: \<close> line whose frame parses and has a \<^verbatim>\<open>chunk\<close>, the fragment of that
  frame is the last one emitted and the sequence ends successfully.
\<close>

theorem trailing_frame_emitted:
  assumes "residual before = []"
    and "for_lines rt (complete_lines before) = (ys, Continue)"
    and "newline \<notin> set json"
    and "JSON_parse rt json = Inr data"
    and "chunk_in rt data = Inr True"
    and "received rt cs = before @ data_line json"
  shows "streamResponse rt \<lparr>chunks = cs, fin = Ended\<rparr> =
           (ys @ [getprop data ''chunk''], Returned)"
proof -
  have "decode_text rt (before @ data_line json) Ended =
          (ys @ [getprop data ''chunk''], Continue)"
    unfolding decode_text_after [OF assms(1)]
    using assms(2) by (simp add: at_end_frame [OF assms(3,4,5)] emit_def)
  then show ?thesis
    using assms(6) by (simp add: streamResponse_decode_text finish_def)
qed

theorem trailing_frame_emitted_witness:
  \<open>streamResponse node
      \<lparr>chunks = [''data: {"chunk":"a"}\<newline>data: {"chu'', ''nk":"ab"}''], fin = Ended\<rparr> =
     ([String ''a'', String ''ab''], Returned)\<close>
proof -
  let ?before = \<open>''data: {"chunk":"a"}\<newline>''\<close>
  let ?json = \<open>''{"chunk":"ab"}''\<close>
  let ?data = \<open>Object [(''chunk'', String ''ab'')]\<close>
  have 1: "residual ?before = []"
    by (simp add: example_simps)
  have 2: "for_lines node (complete_lines ?before) = ([String ''a''], Continue)"
    by (simp add: example_simps)
  have 3: "newline \<notin> set ?json"
    by (simp add: example_simps)
  have 4: "JSON_parse node ?json = Inr ?data"
    by (simp add: example_simps)
  have 5: "chunk_in node ?data = Inr True"
    by simp
  have 6: \<open>received node [''data: {"chunk":"a"}\<newline>data: {"chu'', ''nk":"ab"}''] =
           ?before @ data_line ?json\<close>
    by (simp add: example_simps)
  show ?thesis
    using trailing_frame_emitted [OF 1 2 3 4 5 6] by simp
qed

text \<open>
  C4. When the decoder reaches a complete \<^verbatim>\<open>data: \<close> line whose remainder
  \<^verbatim>\<open>JSON.parse\<close> rejects (the lines before it fell through, having emitted \<open>ys\<close>),
  the sequence ends with an error that wraps the parser's message; the fragments are
  those of the earlier lines, in order: none comes from the line or from anything after
  it (\<open>later\<close>, and how the response ends).
\<close>

theorem malformed_frame_fails:
  assumes "residual before = []"
    and "for_lines rt (complete_lines before) = (ys, Continue)"
    and "newline \<notin> set json"
    and "JSON_parse rt json = Inl m"
    and "received rt cs = before @ data_line json @ newline # later"
  shows "streamResponse rt \<lparr>chunks = cs, fin = e\<rparr> =
           (ys, Threw (Error (''Failed to stream response: '' @
                              ''Failed to parse JSON response from server: '' @ m)))"
proof -
  have "decode_text rt (data_line json @ newline # later) e = ([], Throw (inner_catch m))"
    unfolding decode_text_line [OF newline_data_line [OF assms(3)]]
    using assms(4) by (simp add: startsWith_data_line slice_data_line)
  then have "decode_text rt (before @ data_line json @ newline # later) e =
               (ys, Throw (inner_catch m))"
    unfolding decode_text_after [OF assms(1)]
    using assms(2) by (simp add: emit_def)
  then show ?thesis
    using assms(5)
    by (simp add: streamResponse_decode_text finish_def inner_catch_def outer_catch_def)
qed

theorem malformed_frame_fails_witness:
  \<open>streamResponse node
      \<lparr>chunks = [''data: {"chunk":"a"}\<newline>data: {"chunk":\<newline>da'', ''ta: {"chunk":"c"}\<newline>''],
       fin = Ended\<rparr> =
     ([String ''a''],
      Threw (Error (''Failed to stream response: Failed to parse JSON response from server: '' @
                    ''Unexpected end of JSON input'')))\<close>
proof -
  let ?before = \<open>''data: {"chunk":"a"}\<newline>''\<close>
  let ?json = \<open>''{"chunk":''\<close>
  have 1: "residual ?before = []"
    by (simp add: example_simps)
  have 2: "for_lines node (complete_lines ?before) = ([String ''a''], Continue)"
    by (simp add: example_simps)
  have 3: "newline \<notin> set ?json"
    by (simp add: example_simps)
  have 4: "JSON_parse node ?json = Inl ''Unexpected end of JSON input''"
    by (simp add: example_simps)
  have 5: \<open>received node [''data: {"chunk":"a"}\<newline>data: {"chunk":\<newline>da'',
                          ''ta: {"chunk":"c"}\<newline>''] =
           ?before @ data_line ?json @ newline # ''data: {"chunk":"c"}\<newline>''\<close>
    by (simp add: example_simps)
  show ?thesis
    using malformed_frame_fails [OF 1 2 3 4 5] by simp
qed

lemma decode_text_skip_line:
  assumes "residual before = []" and "newline \<notin> set line"
    and "for_lines rt [line] = ([], Continue)"
  shows "decode_text rt (before @ line @ newline # later) e = decode_text rt (before @ later) e"
proof -
  have "decode_text rt (line @ newline # later) e = decode_text rt later e"
    unfolding decode_text_line [OF assms(2)]
    by (simp add: assms(3) emit_Nil del: for_lines.simps)
  then show ?thesis
    unfolding decode_text_after [OF assms(1)] by simp
qed

lemma decode_text_skip_last:
  assumes "residual before = []" and "newline \<notin> set line"
    and "for_lines rt (complete_lines before) = (ys, Continue)"
    and "for_remaining rt [line] = ([], Continue)"
  shows "decode_text rt (before @ line) Ended = (ys, Continue)"
proof -
  have "decode_text rt line Ended = ([], Continue)"
    unfolding decode_text_residual [OF assms(2)]
    by (simp add: split_newline_plain assms(2,4) del: for_remaining.simps)
  then show ?thesis
    unfolding decode_text_after [OF assms(1)]
    using assms(3) by (simp add: emit_def)
qed

text \<open>
  C5. A line that does not start with \<^verbatim>\<open>data: \<close> yields no fragment and no error.
  In either loop the decoder goes on with the lines after it as if it were not there;
  as the last, unterminated line of a response that ends it leaves the sequence to end
  successfully with the fragments emitted before; as a complete line it can be taken
  out of the response without any change to what the decoder does.
\<close>

theorem other_lines_dropped:
  assumes "\<not> startsWith line ''data: ''"
  shows "for_lines rt (line # rest) = for_lines rt rest \<and>
         for_remaining rt (line # rest) = for_remaining rt rest \<and>
         (residual before = [] \<and> newline \<notin> set line \<and>
          for_lines rt (complete_lines before) = (ys, Continue) \<and>
          received rt cs = before @ line \<longrightarrow>
            streamResponse rt \<lparr>chunks = cs, fin = Ended\<rparr> = (ys, Returned)) \<and>
         (residual before = [] \<and> newline \<notin> set line \<and>
          received rt cs = before @ line @ newline # later \<and>
          received rt cs' = before @ later \<longrightarrow>
            streamResponse rt \<lparr>chunks = cs, fin = e\<rparr> =
            streamResponse rt \<lparr>chunks = cs', fin = e\<rparr>)"
proof -
  have a: "for_lines rt (line # rest) = for_lines rt rest" for rest
    using assms by simp
  have b: "for_remaining rt (line # rest) = for_remaining rt rest" for rest
    using assms by simp
  have c: "streamResponse rt \<lparr>chunks = cs, fin = Ended\<rparr> = (ys, Returned)"
    if "residual before = []" "newline \<notin> set line"
      "for_lines rt (complete_lines before) = (ys, Continue)"
      "received rt cs = before @ line"
    using decode_text_skip_last [OF that(1,2,3), of] b [of "[]"] that(4)
    by (simp add: streamResponse_decode_text finish_def)
  have d: "streamResponse rt \<lparr>chunks = cs, fin = e\<rparr> =
           streamResponse rt \<lparr>chunks = cs', fin = e\<rparr>"
    if "residual before = []" "newline \<notin> set line"
      "received rt cs = before @ line @ newline # later"
      "received rt cs' = before @ later"
    using decode_text_skip_line [OF that(1,2), of rt later e] a [of "[]"] that(3,4)
    by (simp add: streamResponse_decode_text)
  show ?thesis
    using a b c d by blast
qed

theorem other_lines_dropped_witness:
  \<open>for_lines node [''event: message'', ''data: {"chunk":"a"}''] =
     for_lines node [''data: {"chunk":"a"}''] \<and>
   for_remaining node [''event: message'', ''data: {"chunk":"a"}''] =
     for_remaining node [''data: {"chunk":"a"}''] \<and>
   streamResponse node
      \<lparr>chunks = [''event: message\<newline>data: {"chunk":"a"}\<newline>ret'', ''ry: 10''],
       fin = Ended\<rparr> = ([String ''a''], Returned) \<and>
   streamResponse node
      \<lparr>chunks = [''data: {"chunk":"a"}\<newline>event: mess'', ''age\<newline>data: {"chunk":"c"}\<newline>''],
       fin = Ended\<rparr> =
   streamResponse node
      \<lparr>chunks = [''data: {"chunk":"a"}\<newline>data: {"chunk":"c"}\<newline>''], fin = Ended\<rparr>\<close>
proof -
  have 1: "\<not> startsWith ''event: message'' ''data: ''"
    by (simp add: example_simps)
  have 2: "\<not> startsWith ''retry: 10'' ''data: ''"
    by (simp add: example_simps)
  let ?before = \<open>''event: message\<newline>data: {"chunk":"a"}\<newline>''\<close>
  have 3: \<open>residual ?before = [] \<and> newline \<notin> set ''retry: 10'' \<and>
          for_lines node (complete_lines ?before) = ([String ''a''], Continue) \<and>
          received node [''event: message\<newline>data: {"chunk":"a"}\<newline>ret'', ''ry: 10''] =
            ?before @ ''retry: 10''\<close>
    by (simp add: example_simps)
  let ?first = \<open>''data: {"chunk":"a"}\<newline>''\<close>
  have 4: \<open>residual ?first = [] \<and> newline \<notin> set ''event: message'' \<and>
          received node [''data: {"chunk":"a"}\<newline>event: mess'',
                         ''age\<newline>data: {"chunk":"c"}\<newline>''] =
            ?first @ ''event: message'' @ newline # ''data: {"chunk":"c"}\<newline>'' \<and>
          received node [''data: {"chunk":"a"}\<newline>data: {"chunk":"c"}\<newline>''] =
            ?first @ ''data: {"chunk":"c"}\<newline>''\<close>
    by (simp add: example_simps)
  show ?thesis
    using other_lines_dropped [OF 1, THEN conjunct1]
      other_lines_dropped [OF 1, THEN conjunct2, THEN conjunct1]
      other_lines_dropped [OF 2, THEN conjunct2, THEN conjunct2, THEN conjunct1, rule_format, OF 3]
      other_lines_dropped [OF 1, THEN conjunct2, THEN conjunct2, THEN conjunct2, rule_format, OF 4]
    by blast
qed

text \<open>
  C6. A \<^verbatim>\<open>data: \<close> line whose frame parses, has no \<^verbatim>\<open>chunk\<close> and no truthy
  \<^verbatim>\<open>completed\<close> is skipped in the same way: no fragment, no error, no end of the
  sequence, and the decoder goes on with the lines after it.
\<close>

theorem empty_frame_skipped:
  assumes "JSON_parse rt json = Inr data"
    and "chunk_in rt data = Inr False"
    and "\<not> truthy (getprop data ''completed'')"
  shows "for_lines rt (data_line json # rest) = for_lines rt rest \<and>
         for_remaining rt (data_line json # rest) = for_remaining rt rest \<and>
         (residual before = [] \<and> newline \<notin> set json \<and>
          for_lines rt (complete_lines before) = (ys, Continue) \<and>
          received rt cs = before @ data_line json \<longrightarrow>
            streamResponse rt \<lparr>chunks = cs, fin = Ended\<rparr> = (ys, Returned)) \<and>
         (residual before = [] \<and> newline \<notin> set json \<and>
          received rt cs = before @ data_line json @ newline # later \<and>
          received rt cs' = before @ later \<longrightarrow>
            streamResponse rt \<lparr>chunks = cs, fin = e\<rparr> =
            streamResponse rt \<lparr>chunks = cs', fin = e\<rparr>)"
proof -
  have a: "for_lines rt (data_line json # rest) = for_lines rt rest" for rest
    using assms(3) by (simp add: for_lines_frame [OF assms(1,2)] emit_Nil del: for_lines.simps)
  have b: "for_remaining rt (data_line json # rest) = for_remaining rt rest" for rest
    by (simp add: for_remaining_frame [OF assms(1,2)] emit_Nil del: for_remaining.simps)
  have c: "streamResponse rt \<lparr>chunks = cs, fin = Ended\<rparr> = (ys, Returned)"
    if "residual before = []" "newline \<notin> set json"
      "for_lines rt (complete_lines before) = (ys, Continue)"
      "received rt cs = before @ data_line json"
    using decode_text_skip_last [OF that(1) newline_data_line [OF that(2)] that(3)]
      b [of "[]"] that(4)
    by (simp add: streamResponse_decode_text finish_def)
  have d: "streamResponse rt \<lparr>chunks = cs, fin = e\<rparr> =
           streamResponse rt \<lparr>chunks = cs', fin = e\<rparr>"
    if "residual before = []" "newline \<notin> set json"
      "received rt cs = before @ data_line json @ newline # later"
      "received rt cs' = before @ later"
    using decode_text_skip_line [OF that(1) newline_data_line [OF that(2)], of rt later e]
      a [of "[]"] that(3,4)
    by (simp add: streamResponse_decode_text)
  show ?thesis
    using a b c d by blast
qed

theorem empty_frame_skipped_witness:
  \<open>for_lines node [''data: {}'', ''data: {"chunk":"a"}''] =
     for_lines node [''data: {"chunk":"a"}''] \<and>
   for_remaining node [''data: {"completed":false}'', ''data: {"chunk":"a"}''] =
     for_remaining node [''data: {"chunk":"a"}''] \<and>
   streamResponse node
      \<lparr>chunks = [''data: {"chunk":"a"}\<newline>data: {"comp'', ''leted":false}''],
       fin = Ended\<rparr> = ([String ''a''], Returned) \<and>
   streamResponse node
      \<lparr>chunks = [''data: {"chunk":"a"}\<newline>data:'', '' {}\<newline>data: {"chunk":"c"}\<newline>''],
       fin = Ended\<rparr> =
   streamResponse node
      \<lparr>chunks = [''data: {"chunk":"a"}\<newline>data: {"chunk":"c"}\<newline>''], fin = Ended\<rparr>\<close>
proof -
  have e1: "JSON_parse node ''{}'' = Inr (Object [])"
    by (simp add: example_simps)
  have e2: "chunk_in node (Object []) = Inr False"
    by simp
  have e3: "\<not> truthy (getprop (Object []) ''completed'')"
    by simp
  have f1: \<open>JSON_parse node ''{"completed":false}'' = Inr (Object [(''completed'', Boolean False)])\<close>
    by (simp add: example_simps)
  have f2: "chunk_in node (Object [(''completed'', Boolean False)]) = Inr False"
    by simp
  have f3: "\<not> truthy (getprop (Object [(''completed'', Boolean False)]) ''completed'')"
    by simp
  let ?first = \<open>''data: {"chunk":"a"}\<newline>''\<close>
  have 3: \<open>residual ?first = [] \<and> newline \<notin> set ''{"completed":false}'' \<and>
          for_lines node (complete_lines ?first) = ([String ''a''], Continue) \<and>
          received node [''data: {"chunk":"a"}\<newline>data: {"comp'', ''leted":false}''] =
            ?first @ data_line ''{"completed":false}''\<close>
    by (simp add: example_simps)
  have 4: \<open>residual ?first = [] \<and> newline \<notin> set ''{}'' \<and>
          received node [''data: {"chunk":"a"}\<newline>data:'',
                         '' {}\<newline>data: {"chunk":"c"}\<newline>''] =
            ?first @ data_line ''{}'' @ newline # ''data: {"chunk":"c"}\<newline>'' \<and>
          received node [''data: {"chunk":"a"}\<newline>data: {"chunk":"c"}\<newline>''] =
            ?first @ ''data: {"chunk":"c"}\<newline>''\<close>
    by (simp add: example_simps)
  have d1: "data_line ''{}'' = ''data: {}''"
    by (simp add: data_line_def)
  have d2: \<open>data_line ''{"completed":false}'' = ''data: {"completed":false}''\<close>
    by (simp add: data_line_def)
  show ?thesis
    using empty_frame_skipped [OF e1 e2 e3, THEN conjunct1, of "[''data: {\"chunk\":\"a\"}'']"]
      empty_frame_skipped [OF f1 f2 f3, THEN conjunct2, THEN conjunct1,
        of "[''data: {\"chunk\":\"a\"}'']"]
      empty_frame_skipped [OF f1 f2 f3, THEN conjunct2, THEN conjunct2, THEN conjunct1,
        rule_format, OF 3]
      empty_frame_skipped [OF e1 e2 e3, THEN conjunct2, THEN conjunct2, THEN conjunct2,
        rule_format, OF 4]
    unfolding d1 d2 by blast
qed

section \<open>What the constructor accepts\<close>

lemmas client_simps = constructor_def or_else_def DEFAULT_ENDPOINT_def Let_def

text \<open>
  C7 as stated fails: an endpoint given as the empty string is none of the default's
  two forms, yet \<^verbatim>\<open>config.endpoint || DEFAULT_ENDPOINT\<close> replaces it by the default, and
  with no key the constructor throws.
\<close>

theorem constructor_empty_endpoint:
  "[] \<noteq> DEFAULT_ENDPOINT \<and>
   constructor \<lparr>apiKey = None, endpoint = Some []\<rparr> =
     Inl (Error ''An apiKey is required for cloud inference. '')"
  by (simp add: client_simps)

text \<open>
  C7, amended. With no key (absent or empty) the constructor throws when the endpoint
  is the default: omitted, empty, or that very string; it succeeds with any other
  endpoint. With a key it succeeds for every endpoint. The constructor does nothing
  else: it returns the client or the error.
\<close>

theorem constructor_requires_key:
  "((key = None \<or> key = Some []) \<and>
    (ep = None \<or> ep = Some [] \<or> ep = Some DEFAULT_ENDPOINT) \<longrightarrow>
      constructor \<lparr>apiKey = key, endpoint = ep\<rparr> =
        Inl (Error ''An apiKey is required for cloud inference. '')) \<and>
   ((key = None \<or> key = Some []) \<and> e \<noteq> [] \<and> e \<noteq> DEFAULT_ENDPOINT \<longrightarrow>
      constructor \<lparr>apiKey = key, endpoint = Some e\<rparr> =
        Inr \<lparr>vl.apiKey = [], vl.endpoint = e\<rparr>) \<and>
   (k \<noteq> [] \<longrightarrow>
      constructor \<lparr>apiKey = Some k, endpoint = ep\<rparr> =
        Inr \<lparr>vl.apiKey = k, vl.endpoint = or_else ep DEFAULT_ENDPOINT\<rparr>)"
  by (auto simp: client_simps split: option.splits)

theorem constructor_requires_key_witness:
  "constructor \<lparr>apiKey = Some [], endpoint = Some ''https://api.moondream.ai/v1''\<rparr> =
     Inl (Error ''An apiKey is required for cloud inference. '') \<and>
   constructor \<lparr>apiKey = None, endpoint = Some ''http://localhost:2020/v1''\<rparr> =
     Inr \<lparr>vl.apiKey = [], vl.endpoint = ''http://localhost:2020/v1''\<rparr> \<and>
   constructor \<lparr>apiKey = Some ''key'', endpoint = None\<rparr> =
     Inr \<lparr>vl.apiKey = ''key'', vl.endpoint = ''https://api.moondream.ai/v1''\<rparr>"
proof -
  have 1: "(Some [] = None \<or> Some [] = Some ([]::string)) \<and>
           (Some ''https://api.moondream.ai/v1'' = None \<or>
            Some ''https://api.moondream.ai/v1'' = Some [] \<or>
            Some ''https://api.moondream.ai/v1'' = Some DEFAULT_ENDPOINT)"
    by (simp add: DEFAULT_ENDPOINT_def)
  have 2: "((None::string option) = None \<or> None = Some ([]::string)) \<and>
           ''http://localhost:2020/v1'' \<noteq> [] \<and>
           ''http://localhost:2020/v1'' \<noteq> DEFAULT_ENDPOINT"
    by (simp add: DEFAULT_ENDPOINT_def)
  have 3: "''key'' \<noteq> []"
    by simp
  show ?thesis
    using constructor_requires_key [THEN conjunct1, rule_format, OF 1]
      constructor_requires_key [THEN conjunct2, THEN conjunct1, rule_format, OF 2]
      constructor_requires_key [THEN conjunct2, THEN conjunct2, rule_format, OF 3, of None]
    by (simp add: or_else_def DEFAULT_ENDPOINT_def)
qed

section \<open>What the image normalizer returns\<close>

text \<open>
  C8. An input that is already an encoded image (it carries \<^verbatim>\<open>imageUrl\<close>) comes back
  as it is, whatever the image library would do: the library is not called.
\<close>

theorem encodeImage_encoded:
  "encodeImage jimp (Encoded e) = Inr e"
  by (simp add: encodeImage_def)

text \<open>
  C9. For a buffer that the library decodes to an image with a bitmap of truthy width
  and height and then encodes, the result is the data URI of the JPEG at quality 95 in
  base64, whatever the bytes were. When the library cannot decode, when the image has no
  bitmap or a falsy width or height, or when the library cannot encode, the result is
  an error whose message carries that of the cause; and a dispatcher whose image cannot
  be encoded fails with that error and sends no request.
\<close>

theorem encodeImage_buffer:
  "(read jimp bytes = Inr im \<and> bitmap jimp im = Some b \<and>
    truthy (width b) \<and> truthy (height b) \<and>
    getBufferAsync jimp ''image/jpeg'' (quality jimp 95 im) = Inr jpeg \<longrightarrow>
      encodeImage jimp (Buffer bytes) =
        Inr \<lparr>imageUrl = ''data:image/jpeg;base64,'' @ toString_base64 jpeg\<rparr>) \<and>
   (read jimp bytes = Inl cause \<longrightarrow>
      encodeImage jimp (Buffer bytes) =
        Inl (Error (''Failed to convert image to JPEG: '' @ message cause))) \<and>
   (read jimp bytes = Inr im \<and>
    (bitmap jimp im = None \<or>
     bitmap jimp im = Some b \<and> (\<not> truthy (width b) \<or> \<not> truthy (height b))) \<longrightarrow>
      encodeImage jimp (Buffer bytes) =
        Inl (Error ''Failed to convert image to JPEG: Unable to get image dimensions'')) \<and>
   (read jimp bytes = Inr im \<and> bitmap jimp im = Some b \<and>
    truthy (width b) \<and> truthy (height b) \<and>
    getBufferAsync jimp ''image/jpeg'' (quality jimp 95 im) = Inl cause \<longrightarrow>
      encodeImage jimp (Buffer bytes) =
        Inl (Error (''Failed to convert image to JPEG: '' @ message cause))) \<and>
   (encodeImage jimp (CaptionRequest.image creq) = Inl err \<longrightarrow>
      caption rt jimp net creq = ([], Inl err)) \<and>
   (QueryRequest.image qreq = Some img \<and> encodeImage jimp img = Inl err \<longrightarrow>
      query rt jimp net qreq = ([], Inl err)) \<and>
   (encodeImage jimp (DetectRequest.image dreq) = Inl err \<longrightarrow>
      detect rt jimp net dreq = ([], Inl err)) \<and>
   (encodeImage jimp (PointRequest.image preq) = Inl err \<longrightarrow>
      point rt jimp net preq = ([], Inl err))"
  by (auto simp: encodeImage_def convert_def caption_def query_def query_body_def
      detect_def point_def Let_def)

lemma jpeg_base64: "toString_base64 [CHR 0xFF, CHR 0xD8, CHR 0xFF] = ''/9j/''"
  by (simp add: toString_base64_def sextet_def alphabet_def)

theorem encodeImage_buffer_witness:
  "encodeImage small_codec (Buffer ''PNG'') = Inr \<lparr>imageUrl = ''data:image/jpeg;base64,/9j/''\<rparr> \<and>
   encodeImage small_codec (Buffer []) =
     Inl (Error ''Failed to convert image to JPEG: Could not find MIME for Buffer <null>'') \<and>
   encodeImage small_codec (Buffer ''?'') =
     Inl (Error ''Failed to convert image to JPEG: Unable to get image dimensions'') \<and>
   encodeImage small_codec (Buffer ''!'') =
     Inl (Error ''Failed to convert image to JPEG: Unsupported MIME type: image/jpeg'') \<and>
   caption node small_codec (replies Null)
       \<lparr>CaptionRequest.image = Buffer [], length' = None, stream = Some True, variant = None\<rparr> =
     ([], Inl (Error ''Failed to convert image to JPEG: Could not find MIME for Buffer <null>'')) \<and>
   query node small_codec (replies Null)
       \<lparr>question = ''What is this?'', image = Some (Buffer ''?''), reasoning = None,
        stream = None, variant = None\<rparr> =
     ([], Inl (Error ''Failed to convert image to JPEG: Unable to get image dimensions'')) \<and>
   detect node small_codec (replies Null) \<lparr>DetectRequest.image = Buffer ''!'', object = ''cat'', variant = None\<rparr> =
     ([], Inl (Error ''Failed to convert image to JPEG: Unsupported MIME type: image/jpeg'')) \<and>
   point node small_codec (replies Null) \<lparr>PointRequest.image = Buffer [], object = ''cat'', variant = None\<rparr> =
     ([], Inl (Error ''Failed to convert image to JPEG: Could not find MIME for Buffer <null>''))"
proof -
  let ?dims = "\<lparr>width = Number (Finite 100), height = Number (Finite 100)\<rparr>"
  let ?jpeg = "[CHR 0xFF, CHR 0xD8, CHR 0xFF]"
  let ?no_mime = "Error ''Could not find MIME for Buffer <null>''"
  let ?no_jpeg = "Error ''Unsupported MIME type: image/jpeg''"
  have 1: "read small_codec ''PNG'' = Inr ''PNG'' \<and> bitmap small_codec ''PNG'' = Some ?dims \<and>
           truthy (width ?dims) \<and> truthy (height ?dims) \<and>
           getBufferAsync small_codec ''image/jpeg'' (quality small_codec 95 ''PNG'') = Inr ?jpeg"
    by (simp add: small_codec_def)
  have 2: "read small_codec [] = Inl ?no_mime"
    by (simp add: small_codec_def)
  have 3: "read small_codec ''?'' = Inr ''?'' \<and>
           (bitmap small_codec ''?'' = None \<or>
            bitmap small_codec ''?'' = Some ?dims \<and>
            (\<not> truthy (width ?dims) \<or> \<not> truthy (height ?dims)))"
    by (simp add: small_codec_def)
  have 4: "read small_codec ''!'' = Inr ''!'' \<and> bitmap small_codec ''!'' = Some ?dims \<and>
           truthy (width ?dims) \<and> truthy (height ?dims) \<and>
           getBufferAsync small_codec ''image/jpeg'' (quality small_codec 95 ''!'') = Inl ?no_jpeg"
    by (simp add: small_codec_def)
  note a = encodeImage_buffer [THEN conjunct1, rule_format, OF 1]
  note b = encodeImage_buffer [THEN conjunct2, THEN conjunct1, rule_format, OF 2]
  note c = encodeImage_buffer [THEN conjunct2, THEN conjunct2, THEN conjunct1, rule_format, OF 3]
  note d = encodeImage_buffer [THEN conjunct2, THEN conjunct2, THEN conjunct2, THEN conjunct1,
      rule_format, OF 4]
  let ?creq = "\<lparr>CaptionRequest.image = Buffer [], length' = None, stream = Some True, variant = None\<rparr>"
  let ?qreq = "\<lparr>question = ''What is this?'', image = Some (Buffer ''?''), reasoning = None,
        stream = None, variant = None\<rparr>"
  let ?dreq = "\<lparr>DetectRequest.image = Buffer ''!'', object = ''cat'', variant = None\<rparr>"
  let ?preq = "\<lparr>PointRequest.image = Buffer [], object = ''cat'', variant = None\<rparr>"
  have 5: "encodeImage small_codec (CaptionRequest.image ?creq) =
             Inl (Error (''Failed to convert image to JPEG: '' @ message ?no_mime))"
    using b by simp
  have 6: "QueryRequest.image ?qreq = Some (Buffer ''?'') \<and>
           encodeImage small_codec (Buffer ''?'') =
             Inl (Error ''Failed to convert image to JPEG: Unable to get image dimensions'')"
    using c by simp
  have 7: "encodeImage small_codec (DetectRequest.image ?dreq) =
             Inl (Error (''Failed to convert image to JPEG: '' @ message ?no_jpeg))"
    using d by simp
  have 8: "encodeImage small_codec (PointRequest.image ?preq) =
             Inl (Error (''Failed to convert image to JPEG: '' @ message ?no_mime))"
    using b by simp
  note e = encodeImage_buffer [THEN conjunct2, THEN conjunct2, THEN conjunct2, THEN conjunct2,
      THEN conjunct1, rule_format, OF 5, of node "replies Null"]
  note f = encodeImage_buffer [THEN conjunct2, THEN conjunct2, THEN conjunct2, THEN conjunct2,
      THEN conjunct2, THEN conjunct1, rule_format, OF 6, of node "replies Null"]
  note g = encodeImage_buffer [THEN conjunct2, THEN conjunct2, THEN conjunct2, THEN conjunct2,
      THEN conjunct2, THEN conjunct2, THEN conjunct1, rule_format, OF 7, of node "replies Null"]
  note h = encodeImage_buffer [THEN conjunct2, THEN conjunct2, THEN conjunct2, THEN conjunct2,
      THEN conjunct2, THEN conjunct2, THEN conjunct2, rule_format, OF 8, of node "replies Null"]
  show ?thesis
    using a b c d e f g h by (simp add: jpeg_base64)
qed

section \<open>What a query returns\<close>

lemmas query_simps = query_def query_body_def query_result_def with_variant_def
  optional_boolean_def optional_string_def replies_def Let_def

text \<open>
  C10 as stated fails: \<^verbatim>\<open>query\<close> copies the reply's \<^verbatim>\<open>reasoning\<close> only when it is
  truthy, so a reply that contains the field with an empty text, or with \<^verbatim>\<open>null\<close>,
  gives an output without it.
\<close>

theorem query_drops_falsy_reasoning:
  "query node small_codec (replies (Object [(''answer'', String ''4''), (''reasoning'', String [])]))
     \<lparr>question = ''2+2?'', image = None, reasoning = None, stream = None, variant = None\<rparr> =
     ([\<lparr>path = ''/query'',
        payload = [(''question'', String ''2+2?''), (''stream'', Undefined)],
        streaming = False\<rparr>],
      Inr \<lparr>answer = Plain (String ''4''), reasoning = None\<rparr>) \<and>
   query node small_codec (replies (Object [(''answer'', String ''4''), (''reasoning'', Null)]))
     \<lparr>question = ''2+2?'', image = None, reasoning = None, stream = None, variant = None\<rparr> =
     ([\<lparr>path = ''/query'',
        payload = [(''question'', String ''2+2?''), (''stream'', Undefined)],
        streaming = False\<rparr>],
      Inr \<lparr>answer = Plain (String ''4''), reasoning = None\<rparr>)"
  by (simp add: query_simps)

text \<open>
  C10, amended. For a call of \<^verbatim>\<open>query\<close> that does not stream and whose request gets a
  parsed reply with a readable \<^verbatim>\<open>answer\<close>: when the reply's \<^verbatim>\<open>reasoning\<close> is truthy,
  the output has that value as its \<^verbatim>\<open>reasoning\<close>, beside the answer; when it is falsy,
  and so when the reply has no such field, the output has no \<^verbatim>\<open>reasoning\<close>.
\<close>

theorem query_reasoning:
  assumes "QueryRequest.stream request \<noteq> Some True"
    and "query_body jimp request = Inr requestBody"
    and "post_json net ''/query'' requestBody = Inr response"
    and "read_property rt response ''answer'' = Inr a"
  shows "(truthy (getprop response ''reasoning'') \<longrightarrow>
            snd (query rt jimp net request) =
              Inr \<lparr>answer = Plain a, reasoning = Some (getprop response ''reasoning'')\<rparr>) \<and>
         (\<not> truthy (getprop response ''reasoning'') \<longrightarrow>
            snd (query rt jimp net request) = Inr \<lparr>answer = Plain a, reasoning = None\<rparr>) \<and>
         (response = Object fs \<and> ''reasoning'' \<notin> fst ` set fs \<longrightarrow>
            snd (query rt jimp net request) = Inr \<lparr>answer = Plain a, reasoning = None\<rparr>)"
proof -
  have plain: "\<not> truthy (optional_boolean (QueryRequest.stream request))"
    using assms(1) by (cases "QueryRequest.stream request") (auto simp: optional_boolean_def)
  have q: "snd (query rt jimp net request) = query_result rt response"
    using plain assms(2,3) by (simp add: query_def)
  have absent: "getprop (Object fs) ''reasoning'' = Undefined" if "''reasoning'' \<notin> fst ` set fs"
    using that by (simp add: map_of_eq_None_iff [THEN iffD2])
  show ?thesis
    using q assms(4) absent by (auto simp: query_result_def)
qed

theorem query_reasoning_witness:
  "snd (query node small_codec
          (replies (Object [(''answer'', String ''4''),
                            (''reasoning'', Object [(''text'', String ''two pairs'')])]))
          \<lparr>question = ''2+2?'', image = None, reasoning = Some True, stream = Some False,
           variant = None\<rparr>) =
     Inr \<lparr>answer = Plain (String ''4''),
          reasoning = Some (Object [(''text'', String ''two pairs'')])\<rparr> \<and>
   snd (query node small_codec (replies (Object [(''answer'', String ''4'')]))
          \<lparr>question = ''2+2?'', image = None, reasoning = None, stream = None,
           variant = None\<rparr>) =
     Inr \<lparr>answer = Plain (String ''4''), reasoning = None\<rparr>"
proof -
  let ?full = "Object [(''answer'', String ''4''),
                       (''reasoning'', Object [(''text'', String ''two pairs'')])]"
  let ?bare = "Object [(''answer'', String ''4'')]"
  let ?r1 = "\<lparr>question = ''2+2?'', image = None, reasoning = Some True, stream = Some False,
           variant = None\<rparr>"
  let ?r2 = "\<lparr>question = ''2+2?'', image = None, reasoning = None, stream = None,
           variant = None\<rparr>"
  let ?b1 = "[(''question'', String ''2+2?''), (''stream'', Boolean False),
              (''reasoning'', Boolean True)]"
  let ?b2 = "[(''question'', String ''2+2?''), (''stream'', Undefined)]"
  have a1: "QueryRequest.stream ?r1 \<noteq> Some True"
    by simp
  have a2: "query_body small_codec ?r1 = Inr ?b1"
    by (simp add: query_simps)
  have a3: "post_json (replies ?full) ''/query'' ?b1 = Inr ?full"
    by (simp add: replies_def)
  have a4: "read_property node ?full ''answer'' = Inr (String ''4'')"
    by simp
  have a5: "truthy (getprop ?full ''reasoning'')"
    by simp
  have b1: "QueryRequest.stream ?r2 \<noteq> Some True"
    by simp
  have b2: "query_body small_codec ?r2 = Inr ?b2"
    by (simp add: query_simps)
  have b3: "post_json (replies ?bare) ''/query'' ?b2 = Inr ?bare"
    by (simp add: replies_def)
  have b4: "read_property node ?bare ''answer'' = Inr (String ''4'')"
    by simp
  have b5: "?bare = Object [(''answer'', String ''4'')] \<and>
            ''reasoning'' \<notin> fst ` set [(''answer'', String ''4'')]"
    by simp
  have b6: "\<not> truthy (getprop ?bare ''reasoning'')"
    by simp
  show ?thesis
    using query_reasoning [OF a1 a2 a3 a4, THEN conjunct1, rule_format, OF a5]
      query_reasoning [OF b1 b2 b3 b4, THEN conjunct2, THEN conjunct1, rule_format, OF b6]
      query_reasoning [OF b1 b2 b3 b4, THEN conjunct2, THEN conjunct2, rule_format, OF b5]
    by simp
qed

end
